theory Spec2Isabelle
  imports Main
begin

section \<open>Reactive reads as a data type\<close>

text \<open>
  The functions of \<^verbatim>\<open>app.py\<close> are ordinary Python functions whose only effect is to
  read reactive sources: \<^verbatim>\<open>input.selected_attribute()\<close>, \<^verbatim>\<open>filtered_data()\<close>.
  Such a function is embedded as a term of \<open>comp\<close>: it returns, raises, or reads a
  source by name and continues with what the read gave (a value or a failure).
\<close>

type_synonym ident = string

datatype error =
    InvalidInputError
  | CycleError
  | EvaluationError string
  | StaleReadError
  | UnknownSource ident

datatype 'v comp =
    Ret 'v
  | Raise error
  | Read ident "error + 'v \<Rightarrow> 'v comp"

text \<open>A plain read: a failure of the source is raised again, unchanged.\<close>

definition get :: "ident \<Rightarrow> ('v \<Rightarrow> 'v comp) \<Rightarrow> 'v comp" where
  "get i k = Read i (\<lambda>r. case r of Inl e \<Rightarrow> Raise e | Inr v \<Rightarrow> k v)"

text \<open>
  Running a function body when every source \<open>i\<close> answers \<open>env i\<close>, and the sources it
  reads on the way, in order.
\<close>

primrec exec :: "'v comp \<Rightarrow> (ident \<Rightarrow> error + 'v) \<Rightarrow> error + 'v" where
  "exec (Ret v) env = Inr v"
| "exec (Raise e) env = Inl e"
| "exec (Read i k) env = exec (k (env i)) env"

primrec reads :: "'v comp \<Rightarrow> (ident \<Rightarrow> error + 'v) \<Rightarrow> ident list" where
  "reads (Ret v) env = []"
| "reads (Raise e) env = []"
| "reads (Read i k) env = i # reads (k (env i)) env"

section \<open>The dashboard of \<^verbatim>\<open>app.py\<close>\<close>

text \<open>
  A row of the penguin table. The code looks at the \<open>species\<close> column only; the
  other columns are carried along in \<open>other_columns\<close>.
\<close>

record 'm penguin =
  species :: string
  island :: string
  other_columns :: 'm

type_synonym 'm frame = "'m penguin list"

text \<open>
  The chart libraries are outside the repository. A call to seaborn is kept as the
  call itself, with the arguments it was given: \<open>SnsHistplot data x bins\<close> stands for
  \<^verbatim>\<open>sns.histplot(data=data, x=x, bins=bins)\<close>, and so on. The two plotly calls,
  \<^verbatim>\<open>px.histogram\<close> and \<^verbatim>\<open>px.scatter\<close>, are parameters of the functions that make
  them: what they return, and whether they raise, is the library's business and is
  not fixed here. \<open>PxHistogram\<close> and \<open>PxScatter\<close> are charts such a call may return.
  The title position \<^verbatim>\<open>"x": 0.5\<close> of \<^verbatim>\<open>update_layout\<close> and the \<^verbatim>\<open>labels\<close>
  dictionary of \<^verbatim>\<open>px.scatter\<close> are constants of the call and are not repeated.
\<close>

datatype 'm dval =
    Str string
  | Num int
  | Strs "string list"
  | Frame "'m frame"
  | Fig "'m figure"
and 'm figure =
    PxHistogram "'m frame" "'m dval" "'m dval"
  | UpdateLayout "'m figure" string string "'m dval"
  | SnsHistplot "'m dval" "'m dval" "'m dval"
  | SetTitle "'m figure" string
  | SetXlabel "'m figure" "'m dval"
  | SetYlabel "'m figure" string
  | PxScatter "'m frame" string string string string

text \<open>The four inputs of the sidebar, with the value each is created with.\<close>

record inputs =
  selected_attribute :: string
  plotly_bin_count :: int
  seaborn_bin_count :: int
  selected_species_list :: "string list"

definition attribute_choices :: "string list" where
  "attribute_choices = [''bill_length_mm'', ''bill_depth_mm'', ''flipper_length_mm'', ''body_mass_g'']"

definition species_choices :: "string list" where
  "species_choices = [''Adelie'', ''Chinstrap'', ''Gentoo'']"

definition initial_inputs :: inputs where
  "initial_inputs =
     \<lparr>selected_attribute = ''bill_length_mm'', plotly_bin_count = 20,
      seaborn_bin_count = 10, selected_species_list = [''Adelie'']\<rparr>"

type_synonym 'm px_histogram = "'m frame \<Rightarrow> 'm dval \<Rightarrow> 'm dval \<Rightarrow> error + 'm figure"

type_synonym 'm px_scatter =
  "'m frame \<Rightarrow> string \<Rightarrow> string \<Rightarrow> string \<Rightarrow> string \<Rightarrow> error + 'm figure"

text \<open>\<^verbatim>\<open>plot1\<close>: lines 129 to 136. The attribute is read twice.\<close>

definition plot1 :: "'m px_histogram \<Rightarrow> 'm frame \<Rightarrow> 'm dval comp" where
  "plot1 px_histogram penguin_df =
     get ''selected_attribute'' (\<lambda>x.
     get ''plotly_bin_count'' (\<lambda>nbins.
     case px_histogram penguin_df x nbins of
       Inl e \<Rightarrow> Raise e
     | Inr fig \<Rightarrow>
         get ''selected_attribute'' (\<lambda>xaxis_title.
         Ret (Fig (UpdateLayout fig ''Penguins'' ''count'' xaxis_title)))))"

text \<open>\<^verbatim>\<open>plot2\<close>: lines 142 to 148.\<close>

definition plot2 :: "'m frame \<Rightarrow> 'm dval comp" where
  "plot2 penguin_df =
     get ''selected_attribute'' (\<lambda>x.
     get ''seaborn_bin_count'' (\<lambda>bins.
     get ''selected_attribute'' (\<lambda>xlabel.
     Ret (Fig (SetYlabel (SetXlabel (SetTitle (SnsHistplot (Frame penguin_df) x bins)
            ''Penguins'') xlabel) ''Count'')))))"

text \<open>
  \<^verbatim>\<open>Series.isin\<close> takes a list-like argument and raises \<^verbatim>\<open>TypeError\<close> on anything
  else; on a list it is membership.
\<close>

fun isin :: "'m dval \<Rightarrow> error + (string \<Rightarrow> bool)" where
  "isin (Strs vs) = Inr (\<lambda>s. s \<in> set vs)"
| "isin _ = Inl (EvaluationError ''TypeError'')"

text \<open>\<^verbatim>\<open>plotly_scatterplot\<close>: lines 152 to 168.\<close>

definition plotly_scatterplot :: "'m px_scatter \<Rightarrow> 'm frame \<Rightarrow> 'm dval comp" where
  "plotly_scatterplot px_scatter penguin_df =
     get ''selected_species_list'' (\<lambda>selected_species.
     case isin selected_species of
       Inl e \<Rightarrow> Raise e
     | Inr keep \<Rightarrow>
         (case px_scatter (filter (\<lambda>r. keep (species r)) penguin_df)
                 ''bill_length_mm'' ''bill_depth_mm'' ''island'' ''species'' of
            Inl e \<Rightarrow> Raise e
          | Inr fig \<Rightarrow> Ret (Fig fig)))"

text \<open>\<^verbatim>\<open>filtered_data\<close>: lines 181 to 183.\<close>

definition filtered_data :: "'m frame \<Rightarrow> 'm dval comp" where
  "filtered_data penguin_df = Ret (Frame penguin_df)"

text \<open>\<^verbatim>\<open>seaborn_histogram\<close>: lines 185 to 191.\<close>

definition seaborn_histogram :: "'m dval comp" where
  "seaborn_histogram =
     get ''filtered_data'' (\<lambda>data.
     get ''seaborn_bin_count'' (\<lambda>bins.
     Ret (Fig (SetYlabel (SetXlabel (SetTitle (SnsHistplot data (Str ''body_mass_g'') bins)
            ''Palmer Penguins'') (Str ''Mass (g)'')) ''Count''))))"

text \<open>
  What a read answers in a session whose inputs are \<open>inp\<close>: an input answers its value,
  and \<^verbatim>\<open>filtered_data()\<close> answers what the body of \<open>filtered_data\<close> returns.
\<close>

definition input_env :: "inputs \<Rightarrow> ident \<Rightarrow> error + 'm dval" where
  "input_env inp i =
     (if i = ''selected_attribute'' then Inr (Str (selected_attribute inp))
      else if i = ''plotly_bin_count'' then Inr (Num (plotly_bin_count inp))
      else if i = ''seaborn_bin_count'' then Inr (Num (seaborn_bin_count inp))
      else if i = ''selected_species_list'' then Inr (Strs (selected_species_list inp))
      else Inl (UnknownSource i))"

definition session_env :: "'m frame \<Rightarrow> inputs \<Rightarrow> ident \<Rightarrow> error + 'm dval" where
  "session_env penguin_df inp i =
     (if i = ''filtered_data'' then exec (filtered_data penguin_df) (input_env inp)
      else input_env inp i)"

section \<open>Properties of the dashboard functions\<close>

lemma exec_get [simp]:
  "exec (get i k) env = (case env i of Inl e \<Rightarrow> Inl e | Inr v \<Rightarrow> exec (k v) env)"
  by (simp add: get_def split: sum.splits)

lemma reads_get [simp]:
  "reads (get i k) env = i # (case env i of Inl e \<Rightarrow> [] | Inr v \<Rightarrow> reads (k v) env)"
  by (simp add: get_def split: sum.splits)

lemma session_env_filtered_data [simp]:
  "session_env df inp ''filtered_data'' = Inr (Frame df)"
  by (simp add: session_env_def filtered_data_def)

lemma session_env_seaborn_bin_count [simp]:
  "session_env df inp ''seaborn_bin_count'' = Inr (Num (seaborn_bin_count inp))"
  by (simp add: session_env_def input_env_def)

lemma session_env_selected_species_list [simp]:
  "session_env df inp ''selected_species_list'' = Inr (Strs (selected_species_list inp))"
  by (simp add: session_env_def input_env_def)

text \<open>
  C8. \<open>filtered_data\<close> returns the penguin table as it is, whatever the sources would
  answer, and it reads no source: its value is the same on every read of a session.
\<close>

theorem filtered_data_identity:
  "exec (filtered_data penguin_df) env = Inr (Frame penguin_df) \<and>
   reads (filtered_data penguin_df) env = [] \<and>
   session_env penguin_df inp ''filtered_data'' = Inr (Frame penguin_df)"
  by (simp add: filtered_data_def session_env_def)

text \<open>
  C9. Two sessions over the same table whose inputs agree on \<open>seaborn_bin_count\<close>
  give the same \<open>seaborn_histogram\<close> artifact, whatever their other three inputs are.
\<close>

theorem seaborn_histogram_depends_on_bins_only:
  assumes "seaborn_bin_count inp = seaborn_bin_count inp'"
  shows "exec seaborn_histogram (session_env penguin_df inp) =
         exec seaborn_histogram (session_env penguin_df inp')"
  using assms by (simp add: seaborn_histogram_def)

theorem seaborn_histogram_depends_on_bins_only_witness:
  "seaborn_bin_count initial_inputs =
     seaborn_bin_count \<lparr>selected_attribute = ''body_mass_g'', plotly_bin_count = 0,
        seaborn_bin_count = 10, selected_species_list = []\<rparr> \<and>
   exec seaborn_histogram (session_env [] initial_inputs) =
     (exec seaborn_histogram (session_env []
        \<lparr>selected_attribute = ''body_mass_g'', plotly_bin_count = 0,
         seaborn_bin_count = 10, selected_species_list = []\<rparr>) :: error + unit dval)"
proof -
  have h: "seaborn_bin_count initial_inputs =
     seaborn_bin_count \<lparr>selected_attribute = ''body_mass_g'', plotly_bin_count = 0,
        seaborn_bin_count = 10, selected_species_list = []\<rparr>"
    by (simp add: initial_inputs_def)
  from seaborn_histogram_depends_on_bins_only [OF h] h show ?thesis by blast
qed

text \<open>
  What \<open>plotly_scatterplot\<close> adds to the library call: it keeps the rows whose species
  is selected, hands them to \<^verbatim>\<open>px.scatter\<close>, and returns or raises as that call does.
  With nothing selected the table handed over is empty.
\<close>

lemma plotly_scatterplot_calls_px_scatter:
  "exec (plotly_scatterplot px_scatter penguin_df)
       (session_env penguin_df (inp\<lparr>selected_species_list := sel\<rparr>)) =
     map_sum id Fig (px_scatter (filter (\<lambda>r. species r \<in> set sel) penguin_df)
        ''bill_length_mm'' ''bill_depth_mm'' ''island'' ''species'')"
  by (simp add: plotly_scatterplot_def split: sum.splits)

lemma plotly_scatterplot_empty_selection:
  "exec (plotly_scatterplot px_scatter penguin_df)
       (session_env penguin_df (inp\<lparr>selected_species_list := []\<rparr>)) =
     map_sum id Fig (px_scatter [] ''bill_length_mm'' ''bill_depth_mm'' ''island'' ''species'')"
  by (simp add: plotly_scatterplot_def split: sum.splits)

end
